theory Spec2Isabelle
  imports Complex_Main
begin

section \<open>JavaScript values used by the calculation core\<close>

text \<open>
  Numbers are modelled by exact rationals: every decimal literal of the source
  (\<^verbatim>\<open>0.21\<close>, \<^verbatim>\<open>1.60934\<close>, ...) is the rational it denotes, and the arithmetic is exact.
  The binary rounding of IEEE doubles is not part of the model.

  A property read from an object literal is either an own property (a number in all the
  tables below), a member inherited from \<^verbatim>\<open>Object.prototype\<close> (a function or an object,
  which is truthy and becomes \<^verbatim>\<open>NaN\<close> under arithmetic), or \<^verbatim>\<open>undefined\<close>.
\<close>

datatype jsval = Num rat | NaN | ProtoMember string

definition objectPrototypeKeys :: "string list" where
  "objectPrototypeKeys =
     [''constructor'', ''__proto__'', ''hasOwnProperty'', ''isPrototypeOf'',
      ''propertyIsEnumerable'', ''toLocaleString'', ''toString'', ''valueOf'',
      ''__defineGetter__'', ''__defineSetter__'', ''__lookupGetter__'', ''__lookupSetter__'']"

text \<open>\<^verbatim>\<open>table[key]\<close> on an object literal; \<open>None\<close> is \<^verbatim>\<open>undefined\<close>. A missing key
  (\<^verbatim>\<open>activityDetails?.field\<close> is \<^verbatim>\<open>undefined\<close>) finds nothing.\<close>

fun getProp :: "(string \<times> rat) list \<Rightarrow> string option \<Rightarrow> jsval option" where
  "getProp tbl None = None"
| "getProp tbl (Some k) =
     (case map_of tbl k of
        Some v \<Rightarrow> Some (Num v)
      | None \<Rightarrow> if k \<in> set objectPrototypeKeys then Some (ProtoMember k) else None)"

text \<open>\<^verbatim>\<open>x || d\<close> for a looked-up property \<open>x\<close> and a numeric default \<open>d\<close>:
  \<^verbatim>\<open>undefined\<close>, \<^verbatim>\<open>0\<close> and \<^verbatim>\<open>NaN\<close> are falsy.\<close>

fun orDefault :: "jsval option \<Rightarrow> rat \<Rightarrow> jsval" where
  "orDefault None d = Num d"
| "orDefault (Some (Num v)) d = (if v = 0 then Num d else Num v)"
| "orDefault (Some NaN) d = Num d"
| "orDefault (Some (ProtoMember k)) d = ProtoMember k"

text \<open>\<^verbatim>\<open>s || d\<close> for an optional string: \<^verbatim>\<open>undefined\<close> and the empty string are falsy.\<close>

fun strOr :: "string option \<Rightarrow> string \<Rightarrow> string" where
  "strOr None d = d"
| "strOr (Some s) d = (if s = [] then d else s)"

text \<open>\<^verbatim>\<open>a * b\<close> with a numeric left operand.\<close>

fun times_js :: "rat \<Rightarrow> jsval \<Rightarrow> jsval" where
  "times_js a (Num b) = Num (a * b)"
| "times_js a NaN = NaN"
| "times_js a (ProtoMember k) = NaN"

text \<open>\<^verbatim>\<open>Math.round\<close>: the integer nearest to \<open>x\<close>, a tie going to the larger integer.\<close>

definition mathRound :: "rat \<Rightarrow> rat" where
  "mathRound x = of_int \<lfloor>x + 1 / 2\<rfloor>"

text \<open>\<^verbatim>\<open>Math.round(v * 100) / 100\<close>.\<close>

fun round2 :: "jsval \<Rightarrow> jsval" where
  "round2 (Num x) = Num (mathRound (x * 100) / 100)"
| "round2 NaN = NaN"
| "round2 (ProtoMember k) = NaN"

text \<open>\<^verbatim>\<open>a / b\<close>: with a zero divisor the quotient is \<^verbatim>\<open>NaN\<close> or an infinity, here
  \<open>None\<close>. A function that works on the quotient returns \<open>None\<close> with it.\<close>

definition divide_js :: "rat \<Rightarrow> rat \<Rightarrow> rat option" where
  "divide_js a b = (if b = 0 then None else Some (a / b))"

text \<open>\<^verbatim>\<open>parseFloat(x.toFixed(d))\<close>: the decimal with \<open>d\<close> fraction digits nearest to
  \<open>x\<close>; \<^verbatim>\<open>toFixed\<close> rounds the magnitude and picks the larger candidate at a tie.\<close>

definition toFixed :: "nat \<Rightarrow> rat \<Rightarrow> rat" where
  "toFixed d x = sgn x * of_int \<lfloor>\<bar>x\<bar> * 10 ^ d + 1 / 2\<rfloor> / 10 ^ d"

text \<open>\<^verbatim>\<open>Math.ceil((end - now) / (24 * 60 * 60 * 1000))\<close> on millisecond timestamps.\<close>

definition daysBetween :: "int \<Rightarrow> int \<Rightarrow> int" where
  "daysBetween now end = \<lceil>(of_int (end - now) :: rat) / (24 * 60 * 60 * 1000)\<rceil>"

text \<open>\<^verbatim>\<open>x > y\<close> for a number \<open>x\<close> and a looked-up \<open>y\<close>: a comparison with a member that is
  not a number is false.\<close>

fun gt_js :: "rat \<Rightarrow> jsval \<Rightarrow> bool" where
  "gt_js x (Num y) = (x > y)"
| "gt_js x NaN = False"
| "gt_js x (ProtoMember k) = False"

text \<open>Truthiness of a value: \<^verbatim>\<open>0\<close> and \<^verbatim>\<open>NaN\<close> are falsy, functions and objects truthy.\<close>

fun truthy :: "jsval \<Rightarrow> bool" where
  "truthy (Num v) = (v \<noteq> 0)"
| "truthy NaN = False"
| "truthy (ProtoMember k) = True"

text \<open>Strings are sequences of ASCII characters, so that the length of a string is the
  number of its characters. \<^verbatim>\<open>String.prototype.trim\<close> removes the ASCII white space
  characters from both ends.\<close>

definition isWhiteSpace :: "char \<Rightarrow> bool" where
  "isWhiteSpace c = ((of_char c :: nat) \<in> {9, 10, 11, 12, 13, 32})"

definition trim :: "string \<Rightarrow> string" where
  "trim s = rev (dropWhile isWhiteSpace (rev (dropWhile isWhiteSpace s)))"

section \<open>The Activity document (models/Activity.js)\<close>

text \<open>The object \<^verbatim>\<open>{ carbonFootprint, emissionFactor }\<close> that the calculations return, and
  the document with the paths of the schema: \<open>docId\<close> is its \<^verbatim>\<open>_id\<close>, a date is a time in
  milliseconds, and the two computed paths hold numbers.\<close>

record emissions =
  carbonFootprint :: jsval
  emissionFactor :: jsval

record quantity =
  qvalue :: rat
  qunit :: string

record activityDetails =
  transportMode :: "string option"
  fuelEfficiency :: "rat option"
  energySource :: "string option"
  foodType :: "string option"
  wasteType :: "string option"
  disposalMethod :: "string option"

record activity =
  docId :: nat
  userId :: nat
  activityName :: string
  activityType :: string
  description :: string
  quantity :: quantity
  activityDetails :: activityDetails
  date :: int
  carbonFootprint :: rat
  calculationMethod :: string
  emissionFactor :: rat

subsection \<open>Emission factor tables\<close>

definition transportEmissions :: "(string \<times> rat) list" where
  "transportEmissions =
     [(''car_gasoline'', 21 / 100), (''car_diesel'', 17 / 100), (''car_electric'', 5 / 100),
      (''car_hybrid'', 12 / 100), (''bus'', 8 / 100), (''train'', 4 / 100),
      (''plane_domestic'', 25 / 100), (''plane_international'', 30 / 100),
      (''motorcycle'', 15 / 100), (''bicycle'', 0), (''walking'', 0)]"

definition energyEmissions :: "(string \<times> rat) list" where
  "energyEmissions =
     [(''coal'', 82 / 100), (''natural_gas'', 49 / 100), (''solar'', 5 / 100),
      (''wind'', 2 / 100), (''hydro'', 3 / 100), (''nuclear'', 6 / 100),
      (''grid_average'', 45 / 100)]"

definition foodEmissions :: "(string \<times> rat) list" where
  "foodEmissions =
     [(''beef'', 27), (''pork'', 121 / 10), (''chicken'', 69 / 10), (''fish'', 61 / 10),
      (''dairy_milk'', 32 / 10), (''dairy_cheese'', 135 / 10), (''vegetables'', 2),
      (''fruits'', 11 / 10), (''grains'', 14 / 10), (''processed_food'', 35 / 10)]"

text \<open>\<^verbatim>\<open>wasteEmissions.general_waste\<close>, the nested table of disposal methods.\<close>

definition wasteEmissions_general_waste :: "(string \<times> rat) list" where
  "wasteEmissions_general_waste = [(''landfill'', 5 / 10), (''incineration'', 3 / 10)]"

text \<open>The numeric entries of \<^verbatim>\<open>wasteEmissions\<close>. Its fourth key, \<^verbatim>\<open>general_waste\<close>,
  holds the nested table and is only read in the branch that tests for that key.\<close>

definition wasteEmissions :: "(string \<times> rat) list" where
  "wasteEmissions = [(''recycling'', - (1 / 10)), (''compost'', 1 / 10), (''hazardous'', 2)]"

subsection \<open>The four category calculations\<close>

text \<open>Each calculation first converts the quantity into its own unit. The conversions are
  the local variables \<^verbatim>\<open>distanceKm\<close>, \<^verbatim>\<open>energykWh\<close> and \<^verbatim>\<open>weightKg\<close> (the last one
  computed differently for food and for waste) of the four methods.\<close>

definition distanceKm :: "quantity \<Rightarrow> rat" where
  "distanceKm q =
     (if qunit q = ''miles'' then qvalue q * (160934 / 100000)
      else if qunit q = ''m'' then qvalue q / 1000
      else qvalue q)"

definition energykWh :: "quantity \<Rightarrow> rat" where
  "energykWh q =
     (if qunit q = ''MWh'' then qvalue q * 1000
      else if qunit q = ''BTU'' then qvalue q * (293071 / 1000000000)
      else qvalue q)"

definition weightKg_food :: "quantity \<Rightarrow> rat" where
  "weightKg_food q =
     (if qunit q = ''lbs'' then qvalue q * (453592 / 1000000)
      else if qunit q = ''g'' then qvalue q / 1000
      else if qunit q = ''servings'' then qvalue q * (25 / 100)
      else qvalue q)"

definition weightKg_waste :: "quantity \<Rightarrow> rat" where
  "weightKg_waste q =
     (if qunit q = ''lbs'' then qvalue q * (453592 / 1000000)
      else if qunit q = ''g'' then qvalue q / 1000
      else qvalue q)"

definition calculateTransportEmissions :: "activity \<Rightarrow> emissions" where
  "calculateTransportEmissions a =
     (let ef = orDefault (getProp transportEmissions (transportMode (activityDetails a))) (21 / 100)
      in \<lparr>emissions.carbonFootprint = times_js (distanceKm (quantity a)) ef,
          emissions.emissionFactor = ef\<rparr>)"

definition calculateEnergyEmissions :: "activity \<Rightarrow> emissions" where
  "calculateEnergyEmissions a =
     (let ef = orDefault (getProp energyEmissions (energySource (activityDetails a))) (45 / 100)
      in \<lparr>emissions.carbonFootprint = times_js (energykWh (quantity a)) ef,
          emissions.emissionFactor = ef\<rparr>)"

definition calculateFoodEmissions :: "activity \<Rightarrow> emissions" where
  "calculateFoodEmissions a =
     (let ef = orDefault (getProp foodEmissions (foodType (activityDetails a))) 2
      in \<lparr>emissions.carbonFootprint = times_js (weightKg_food (quantity a)) ef,
          emissions.emissionFactor = ef\<rparr>)"

definition calculateWasteEmissions :: "activity \<Rightarrow> emissions" where
  "calculateWasteEmissions a =
     (let wt = strOr (wasteType (activityDetails a)) ''general_waste'';
          dm = strOr (disposalMethod (activityDetails a)) ''landfill'';
          ef = (if wt = ''general_waste''
                then orDefault (getProp wasteEmissions_general_waste (Some dm)) (5 / 10)
                else orDefault (getProp wasteEmissions (Some wt)) (5 / 10))
      in \<lparr>emissions.carbonFootprint = times_js (weightKg_waste (quantity a)) ef,
          emissions.emissionFactor = ef\<rparr>)"

subsection \<open>calculateCarbonFootprint\<close>

text \<open>Assigning to a \<^verbatim>\<open>Number\<close> path of a document: the cast of anything but a number
  fails and the path keeps its value.\<close>

fun setNumber :: "rat \<Rightarrow> jsval \<Rightarrow> rat" where
  "setNumber old (Num v) = v"
| "setNumber old NaN = old"
| "setNumber old (ProtoMember k) = old"

text \<open>The method dispatches on the category, writes the factor into the document
  (\<^verbatim>\<open>this.emissionFactor = emissionFactor\<close>) and returns the rounded footprint with the
  factor. The model returns the result and the document after the write.\<close>

definition calculateCarbonFootprint :: "activity \<Rightarrow> emissions \<times> activity" where
  "calculateCarbonFootprint a =
     (let e = (if activityType a = ''transport'' then calculateTransportEmissions a
               else if activityType a = ''energy'' then calculateEnergyEmissions a
               else if activityType a = ''food'' then calculateFoodEmissions a
               else if activityType a = ''waste'' then calculateWasteEmissions a
               else \<lparr>emissions.carbonFootprint = Num 0, emissions.emissionFactor = Num 0\<rparr>)
      in (\<lparr>emissions.carbonFootprint = round2 (emissions.carbonFootprint e),
           emissions.emissionFactor = emissions.emissionFactor e\<rparr>,
          a\<lparr>emissionFactor := setNumber (emissionFactor a) (emissions.emissionFactor e)\<rparr>))"


section \<open>Request validation (middleware/validation.js)\<close>

text \<open>The JSON body of an activity request. A string field that is absent is the empty
  string (both are falsy); the quantity, the details and the date may be absent. The body is
  typed: a quantity value is a number, a detail field is absent or a string.\<close>

record activityBody =
  body_activityName :: string
  body_activityType :: string
  body_description :: string
  body_quantity :: "quantity option"
  body_activityDetails :: "activityDetails option"
  body_date :: "int option"

datatype validationError =
    RequiredFieldsMissing | ActivityNameEmpty | ActivityNameTooLong | ActivityTypeInvalid
  | DescriptionEmpty | DescriptionTooLong | QuantityIncomplete | QuantityNotPositive
  | QuantityUnitInvalid | TransportModeInvalid | FuelEfficiencyInvalid | EnergySourceInvalid
  | FoodTypeInvalid | WasteTypeInvalid | DisposalMethodInvalid

definition validTypes :: "string list" where
  "validTypes = [''transport'', ''energy'', ''food'', ''waste'', ''other'']"

definition validUnits :: "string list" where
  "validUnits =
     [''km'', ''miles'', ''m'', ''L'', ''gallons'', ''ml'', ''hours'', ''minutes'', ''days'',
      ''kg'', ''lbs'', ''g'', ''kWh'', ''MWh'', ''BTU'', ''items'', ''pieces'', ''servings'']"

definition validTransportModes :: "string list" where
  "validTransportModes =
     [''car_gasoline'', ''car_diesel'', ''car_electric'', ''car_hybrid'', ''bus'', ''train'',
      ''plane_domestic'', ''plane_international'', ''motorcycle'', ''bicycle'', ''walking'']"

definition validEnergySources :: "string list" where
  "validEnergySources =
     [''coal'', ''natural_gas'', ''solar'', ''wind'', ''hydro'', ''nuclear'', ''grid_average'']"

definition validFoodTypes :: "string list" where
  "validFoodTypes =
     [''beef'', ''pork'', ''chicken'', ''fish'', ''dairy_milk'', ''dairy_cheese'',
      ''vegetables'', ''fruits'', ''grains'', ''processed_food'']"

definition validWasteTypes :: "string list" where
  "validWasteTypes = [''general_waste'', ''recycling'', ''compost'', ''hazardous'']"

definition validDisposalMethods :: "string list" where
  "validDisposalMethods = [''landfill'', ''incineration'', ''recycling'', ''composting'']"

text \<open>\<^verbatim>\<open>details.field && !valid.includes(details.field)\<close>: an absent or empty field passes.\<close>

fun invalidChoice :: "string option \<Rightarrow> string list \<Rightarrow> bool" where
  "invalidChoice None valid = False"
| "invalidChoice (Some s) valid = (s \<noteq> [] \<and> s \<notin> set valid)"

definition validateTransportDetails :: "activityDetails \<Rightarrow> validationError option" where
  "validateTransportDetails details =
     (if invalidChoice (transportMode details) validTransportModes then Some TransportModeInvalid
      else if (case fuelEfficiency details of None \<Rightarrow> False | Some f \<Rightarrow> f \<noteq> 0 \<and> f \<le> 0)
      then Some FuelEfficiencyInvalid
      else None)"

definition validateEnergyDetails :: "activityDetails \<Rightarrow> validationError option" where
  "validateEnergyDetails details =
     (if invalidChoice (energySource details) validEnergySources then Some EnergySourceInvalid
      else None)"

definition validateFoodDetails :: "activityDetails \<Rightarrow> validationError option" where
  "validateFoodDetails details =
     (if invalidChoice (foodType details) validFoodTypes then Some FoodTypeInvalid else None)"

definition validateWasteDetails :: "activityDetails \<Rightarrow> validationError option" where
  "validateWasteDetails details =
     (if invalidChoice (wasteType details) validWasteTypes then Some WasteTypeInvalid
      else if invalidChoice (disposalMethod details) validDisposalMethods
      then Some DisposalMethodInvalid
      else None)"

definition validateActivityDetails :: "string \<Rightarrow> activityDetails \<Rightarrow> validationError option" where
  "validateActivityDetails atype details =
     (if atype = ''transport'' then validateTransportDetails details
      else if atype = ''energy'' then validateEnergyDetails details
      else if atype = ''food'' then validateFoodDetails details
      else if atype = ''waste'' then validateWasteDetails details
      else None)"

text \<open>\<open>None\<close> is the call of \<^verbatim>\<open>next()\<close>; \<open>Some e\<close> is the 400 response.\<close>

definition validateActivity :: "activityBody \<Rightarrow> validationError option" where
  "validateActivity body =
     (case body_quantity body of
        None \<Rightarrow> Some RequiredFieldsMissing
      | Some q \<Rightarrow>
          if body_activityName body = [] \<or> body_activityType body = [] \<or> body_description body = []
          then Some RequiredFieldsMissing
          else if length (trim (body_activityName body)) = 0 then Some ActivityNameEmpty
          else if length (body_activityName body) > 100 then Some ActivityNameTooLong
          else if body_activityType body \<notin> set validTypes then Some ActivityTypeInvalid
          else if length (trim (body_description body)) = 0 then Some DescriptionEmpty
          else if length (body_description body) > 500 then Some DescriptionTooLong
          else if qvalue q = 0 \<or> qunit q = [] then Some QuantityIncomplete
          else if qvalue q \<le> 0 then Some QuantityNotPositive
          else if qunit q \<notin> set validUnits then Some QuantityUnitInvalid
          else (case body_activityDetails body of
                  None \<Rightarrow> None
                | Some details \<Rightarrow> validateActivityDetails (body_activityType body) details))"

section \<open>Documents of the Activity collection\<close>

text \<open>\<^verbatim>\<open>{}\<close> as the details of an activity.\<close>

definition emptyDetails :: activityDetails where
  "emptyDetails =
     \<lparr>transportMode = None, fuelEfficiency = None, energySource = None, foodType = None,
      wasteType = None, disposalMethod = None\<rparr>"

text \<open>\<^verbatim>\<open>new Activity({...})\<close>: the schema trims the two text fields and fills in the
  defaults of the computed fields.\<close>

definition newActivity ::
  "nat \<Rightarrow> nat \<Rightarrow> string \<Rightarrow> string \<Rightarrow> string \<Rightarrow> quantity \<Rightarrow> activityDetails \<Rightarrow> int \<Rightarrow> activity" where
  "newActivity newId uid name atype descr q details d =
     \<lparr>docId = newId, userId = uid, activityName = trim name, activityType = atype,
      description = trim descr, quantity = q, activityDetails = details, date = d,
      carbonFootprint = 0, calculationMethod = ''system_calculated'', emissionFactor = 0\<rparr>"

text \<open>The validators declared in the schema, as the names of the failing paths. An enum of
  a detail field accepts an absent field only.\<close>

fun notInEnum :: "string option \<Rightarrow> string list \<Rightarrow> bool" where
  "notInEnum None valid = False"
| "notInEnum (Some s) valid = (s \<notin> set valid)"

definition inputPathErrors ::
  "string \<Rightarrow> string \<Rightarrow> string \<Rightarrow> quantity \<Rightarrow> activityDetails \<Rightarrow> string list" where
  "inputPathErrors name atype descr q details =
     (if name = [] \<or> length name > 100 then [''activityName''] else []) @
     (if atype \<notin> set validTypes then [''activityType''] else []) @
     (if descr = [] \<or> length descr > 500 then [''description''] else []) @
     (if qvalue q < 0 then [''quantity.value''] else []) @
     (if qunit q \<notin> set validUnits then [''quantity.unit''] else []) @
     (if notInEnum (transportMode details) validTransportModes
      then [''activityDetails.transportMode''] else []) @
     (if notInEnum (energySource details) validEnergySources
      then [''activityDetails.energySource''] else []) @
     (if notInEnum (foodType details) validFoodTypes
      then [''activityDetails.foodType''] else []) @
     (if notInEnum (wasteType details) validWasteTypes
      then [''activityDetails.wasteType''] else []) @
     (if notInEnum (disposalMethod details) validDisposalMethods
      then [''activityDetails.disposalMethod''] else [])"

definition schemaErrors :: "activity \<Rightarrow> string list" where
  "schemaErrors a =
     inputPathErrors (activityName a) (activityType a) (description a) (quantity a)
       (activityDetails a) @
     (if carbonFootprint a < 0 then [''carbonFootprint''] else [])"

text \<open>The \<^verbatim>\<open>pre('save')\<close> hook. \<^verbatim>\<open>result.carbonFootprint || result\<close> is the result
  object itself when the footprint is falsy; an object is not a number, so that
  assignment leaves the path as it was.\<close>

definition preSave :: "bool \<Rightarrow> bool \<Rightarrow> activity \<Rightarrow> activity" where
  "preSave isNew isModified a =
     (if isNew \<or> isModified
      then (let (result, a1) = calculateCarbonFootprint a;
                a2 = (if truthy (emissions.carbonFootprint result)
                      then a1\<lparr>carbonFootprint :=
                             setNumber (carbonFootprint a1) (emissions.carbonFootprint result)\<rparr>
                      else a1)
            in a2\<lparr>emissionFactor :=
                    setNumber (emissionFactor a2)
                      (if truthy (emissions.emissionFactor result)
                       then emissions.emissionFactor result else Num 0)\<rparr>)
      else a)"

datatype routeError =
    Rejected validationError
  | ModelValidationError "string list"
  | ActivityNotFound
  | ServerError

text \<open>\<^verbatim>\<open>activity.save()\<close> of a new document: the validation of the schema runs first,
  the \<^verbatim>\<open>pre('save')\<close> hook after it, and the document is inserted as the hook left it.\<close>

definition save :: "activity \<Rightarrow> activity list \<Rightarrow> routeError + (activity \<times> activity list)" where
  "save a st =
     (if schemaErrors a \<noteq> [] then Inl (ModelValidationError (schemaErrors a))
      else (let a' = preSave True False a in Inr (a', st @ [a'])))"

section \<open>The activity routes (routes/activities.js)\<close>

text \<open>\<^verbatim>\<open>POST /\<close>. \<open>uid\<close> is the authenticated user, \<open>newId\<close> the identifier given to the new
  document, \<open>now\<close> the time of the request. The date of the body, when present, is the
  time it denotes. The result is the saved document and the collection after the insert;
  the tip and the statistics that follow do not touch the document.\<close>

definition postActivity ::
  "nat \<Rightarrow> nat \<Rightarrow> int \<Rightarrow> activityBody \<Rightarrow> activity list \<Rightarrow> routeError + (activity \<times> activity list)" where
  "postActivity uid newId now body st =
     (case validateActivity body of
        Some e \<Rightarrow> Inl (Rejected e)
      | None \<Rightarrow>
          (case body_quantity body of
             None \<Rightarrow> Inl ServerError
           | Some q \<Rightarrow>
               save (newActivity newId uid (body_activityName body) (body_activityType body)
                       (body_description body) \<lparr>qvalue = qvalue q, qunit = qunit q\<rparr>
                       (case body_activityDetails body of None \<Rightarrow> emptyDetails | Some d \<Rightarrow> d)
                       (case body_date body of None \<Rightarrow> now | Some d \<Rightarrow> d))
                 st))"

text \<open>\<^verbatim>\<open>Activity.findOneAndUpdate(filter, updateData, ...)\<close>: the first document that
  matches is replaced by its update. No document hook runs.\<close>

fun findOneAndUpdate ::
  "(activity \<Rightarrow> bool) \<Rightarrow> (activity \<Rightarrow> activity) \<Rightarrow> activity list \<Rightarrow> (activity \<times> activity list) option" where
  "findOneAndUpdate p f [] = None"
| "findOneAndUpdate p f (a # as) =
     (if p a then Some (f a, f a # as)
      else (case findOneAndUpdate p f as of
              None \<Rightarrow> None
            | Some (d, as') \<Rightarrow> Some (d, a # as')))"

text \<open>\<^verbatim>\<open>PUT /:id\<close>. The update sets the six fields of \<^verbatim>\<open>updateData\<close> (a date that is absent
  from the body leaves the stored date), after the validators of these paths
  (\<^verbatim>\<open>runValidators: true\<close>).\<close>

definition putActivity ::
  "nat \<Rightarrow> nat \<Rightarrow> activityBody \<Rightarrow> activity list \<Rightarrow> routeError + (activity \<times> activity list)" where
  "putActivity uid reqId body st =
     (case validateActivity body of
        Some e \<Rightarrow> Inl (Rejected e)
      | None \<Rightarrow>
          (case body_quantity body of
             None \<Rightarrow> Inl ServerError
           | Some q \<Rightarrow>
               (let name = trim (body_activityName body);
                    descr = trim (body_description body);
                    q' = \<lparr>qvalue = qvalue q, qunit = qunit q\<rparr>;
                    details = (case body_activityDetails body of None \<Rightarrow> emptyDetails | Some d \<Rightarrow> d);
                    errs = inputPathErrors name (body_activityType body) descr q' details
                in if errs \<noteq> [] then Inl (ModelValidationError errs)
                   else (case findOneAndUpdate (\<lambda>a. docId a = reqId \<and> userId a = uid)
                                (\<lambda>a. a\<lparr>activityName := name,
                                        activityType := body_activityType body,
                                        description := descr, quantity := q',
                                        activityDetails := details,
                                        date := (case body_date body of None \<Rightarrow> date a | Some d \<Rightarrow> d)\<rparr>)
                                st of
                           None \<Rightarrow> Inl ActivityNotFound
                         | Some r \<Rightarrow> Inr r))))"

text \<open>\<^verbatim>\<open>POST /calculate-preview\<close>. The two numbers of the response,
  \<^verbatim>\<open>calculatedCarbonFootprint\<close> and \<^verbatim>\<open>emissionFactor\<close>, are the two fields of the result
  of \<^verbatim>\<open>calculateCarbonFootprint\<close> on a temporary document, which is not saved (its
  identifier, here 0, is never read).\<close>

definition calculatePreview :: "nat \<Rightarrow> int \<Rightarrow> activityBody \<Rightarrow> routeError + emissions" where
  "calculatePreview uid now body =
     (case validateActivity body of
        Some e \<Rightarrow> Inl (Rejected e)
      | None \<Rightarrow>
          (case body_quantity body of
             None \<Rightarrow> Inl ServerError
           | Some q \<Rightarrow>
               Inr (fst (calculateCarbonFootprint
                          (newActivity 0 uid ''temp'' (body_activityType body) ''temp'' q
                             (case body_activityDetails body of None \<Rightarrow> emptyDetails | Some d \<Rightarrow> d)
                             now)))))"

section \<open>Goals of a user (models/User.js)\<close>

record weeklyGoal =
  userId :: nat
  startDate :: int
  endDate :: int
  category :: string
  goalType :: string
  targetReduction :: rat
  baselineEmissions :: rat
  targetEmissions :: rat
  currentProgress :: rat
  status :: string
  createdAt :: int

record emissionGoal =
  userId :: nat
  targetEmissions :: rat
  category :: string
  timeframe :: string
  baselineEmissions :: rat
  startDate :: int
  endDate :: int
  status :: string
  createdAt :: int

text \<open>Of a user document the routes below read the two current goals only.\<close>

record user =
  currentWeeklyGoal :: "weeklyGoal option"
  currentEmissionGoal :: "emissionGoal option"

section \<open>Goal progress and trends (routes/insights.js)\<close>

text \<open>In the routes below \<open>now\<close> is the time of the request: the times that one request
  reads with \<^verbatim>\<open>new Date()\<close> are taken to be the same.

  \<^verbatim>\<open>Activity.find({userId, date: {$gte: goalStartDate}, ...})\<close> with the category filter
  that is added unless the goal is for \<^verbatim>\<open>'all'\<close>.\<close>

definition goalActivities :: "nat \<Rightarrow> int \<Rightarrow> string \<Rightarrow> activity list \<Rightarrow> activity list" where
  "goalActivities uid goalStartDate cat st =
     filter (\<lambda>a. activity.userId a = uid \<and> goalStartDate \<le> activity.date a \<and>
                 (cat = ''all'' \<or> activityType a = cat)) st"

text \<open>\<^verbatim>\<open>activities.reduce((sum, activity) => sum + activity.carbonFootprint, 0)\<close>.\<close>

definition sumFootprints :: "activity list \<Rightarrow> rat" where
  "sumFootprints as = foldl (\<lambda>sum a. sum + carbonFootprint a) 0 as"

text \<open>The \<^verbatim>\<open>progress\<close> object of a response. The percentage is \<open>None\<close> when it is not a
  finite number. The target and the baseline that the response repeats are those of the
  goal returned with it.\<close>

record progress =
  currentEmissions :: rat
  progressPercentage :: "rat option"
  isOnTrack :: bool
  daysRemaining :: int
  activitiesLogged :: nat

record weeklyProgress = progress +
  reductionAchieved :: rat

record emissionProgress = progress +
  remainingBudget :: rat

datatype ('g, 'p) goalResponse = NoActiveGoal | ActiveGoal 'g 'p

text \<open>\<^verbatim>\<open>GET /weekly-goal-progress\<close>; \<open>u\<close> is what \<^verbatim>\<open>User.findById\<close> found. Reading the
  goal of no user throws, which the route answers with status 500.\<close>

definition weeklyGoalProgress ::
  "user option \<Rightarrow> nat \<Rightarrow> int \<Rightarrow> activity list \<Rightarrow> routeError + (weeklyGoal, weeklyProgress) goalResponse" where
  "weeklyGoalProgress u uid now st =
     (case u of
        None \<Rightarrow> Inl ServerError
      | Some usr \<Rightarrow>
          (case currentWeeklyGoal usr of
             None \<Rightarrow> Inr NoActiveGoal
           | Some currentGoal \<Rightarrow>
               if now > weeklyGoal.endDate currentGoal then Inr NoActiveGoal
               else (let currentActivities =
                           goalActivities uid (weeklyGoal.startDate currentGoal)
                             (weeklyGoal.category currentGoal) st;
                         cur = sumFootprints currentActivities;
                         baseline = weeklyGoal.baselineEmissions currentGoal
                     in Inr (ActiveGoal currentGoal
                          \<lparr>currentEmissions = toFixed 2 cur,
                           progressPercentage =
                             (if baseline > 0
                              then map_option (\<lambda>r. toFixed 1 (r * 100))
                                     (divide_js (baseline - cur) baseline)
                              else Some 0),
                           isOnTrack = (cur \<le> weeklyGoal.targetEmissions currentGoal),
                           daysRemaining = daysBetween now (weeklyGoal.endDate currentGoal),
                           activitiesLogged = length currentActivities,
                           reductionAchieved = toFixed 2 (baseline - cur)\<rparr>))))"

text \<open>\<^verbatim>\<open>GET /emission-goal-progress\<close>; here the goal is read with \<^verbatim>\<open>user?.\<close>, so no user
  is no goal.\<close>

definition emissionGoalProgress ::
  "user option \<Rightarrow> nat \<Rightarrow> int \<Rightarrow> activity list \<Rightarrow> routeError + (emissionGoal, emissionProgress) goalResponse" where
  "emissionGoalProgress u uid now st =
     (case (case u of None \<Rightarrow> None | Some usr \<Rightarrow> currentEmissionGoal usr) of
        None \<Rightarrow> Inr NoActiveGoal
      | Some currentGoal \<Rightarrow>
          if now > emissionGoal.endDate currentGoal then Inr NoActiveGoal
          else (let currentActivities =
                      goalActivities uid (emissionGoal.startDate currentGoal)
                        (emissionGoal.category currentGoal) st;
                    cur = sumFootprints currentActivities;
                    target = emissionGoal.targetEmissions currentGoal
                in Inr (ActiveGoal currentGoal
                     \<lparr>currentEmissions = toFixed 2 cur,
                      progressPercentage =
                        (if target > 0
                         then map_option (\<lambda>r. toFixed 1 (r * 100)) (divide_js cur target)
                         else Some 0),
                      isOnTrack = (cur \<le> target),
                      daysRemaining = daysBetween now (emissionGoal.endDate currentGoal),
                      activitiesLogged = length currentActivities,
                      remainingBudget = toFixed 2 (target - cur)\<rparr>)))"

text \<open>One week of the trend report.\<close>

record weekBucket =
  weekStart :: string
  totalEmissions :: rat
  activityCount :: nat
  byCategory :: "(string \<times> rat) list"

text \<open>The result of \<^verbatim>\<open>calculateTrendDirection\<close>. With fewer than two weeks the object has
  no \<^verbatim>\<open>percentageChange\<close>, here \<open>None\<close>; \<open>None\<close> would also stand for a percentage that is
  not a finite number.\<close>

record trend =
  direction :: string
  change :: rat
  percentageChange :: "rat option"

definition calculateTrendDirection :: "weekBucket list \<Rightarrow> trend" where
  "calculateTrendDirection trendsArray =
     (if length trendsArray < 2 then \<lparr>direction = ''stable'', change = 0, percentageChange = None\<rparr>
      else (let recent = drop (length trendsArray - 2) trendsArray;
                chg = totalEmissions (recent ! 1) - totalEmissions (recent ! 0);
                pct = (if totalEmissions (recent ! 0) > 0
                       then map_option (\<lambda>r. r * 100) (divide_js chg (totalEmissions (recent ! 0)))
                       else Some 0)
            in \<lparr>direction =
                  (case pct of
                     None \<Rightarrow> ''stable''
                   | Some p \<Rightarrow> if \<bar>p\<bar> > 5
                               then (if chg > 0 then ''increasing'' else ''decreasing'')
                               else ''stable''),
                change = toFixed 2 chg,
                percentageChange = map_option (toFixed 1) pct\<rparr>))"

section \<open>Real-time tips (routes/activities.js)\<close>

text \<open>The \<^verbatim>\<open>suggestions\<close> of a tip: a list of strings, or the inherited member that
  \<^verbatim>\<open>table[activityType]\<close> finds for a category named like one. The texts are those of
  the source in ASCII (its degree sign is written \<^verbatim>\<open>deg\<close>).\<close>

datatype suggestionList = Suggestions "string list" | InheritedMember string

fun getSuggestions :: "(string \<times> string list) list \<Rightarrow> string \<Rightarrow> string list \<Rightarrow> suggestionList" where
  "getSuggestions tbl k dflt =
     (case map_of tbl k of
        Some xs \<Rightarrow> Suggestions xs
      | None \<Rightarrow> if k \<in> set objectPrototypeKeys then InheritedMember k else Suggestions dflt)"

definition getAlternativeSuggestions :: "activity \<Rightarrow> suggestionList" where
  "getAlternativeSuggestions a =
     getSuggestions
       [(''transport'',
           [''Try walking or cycling for short trips'',
            ''Use public transport instead of driving'',
            ''Combine multiple errands into one trip'',
            ''Consider carpooling or ride-sharing'']),
        (''food'',
           [''Choose more plant-based meals'',
            ''Buy local, seasonal produce'',
            ''Reduce portion sizes to minimize waste'',
            ''Try one meat-free day per week'']),
        (''energy'',
           [''Use energy-efficient LED lighting'',
            ''Unplug devices when not in use'',
            ''Adjust thermostat by 2 deg C'',
            ''Switch to renewable energy if available'']),
        (''waste'',
           [''Recycle whenever possible'',
            ''Compost organic waste'',
            ''Buy products with minimal packaging'',
            ''Repair items instead of replacing them''])]
       (activityType a)
       [''Look for lower-emission alternatives'',
        ''Consider reducing frequency of this activity'',
        ''Research eco-friendly options for this activity'']"

definition getLowEmissionSuggestions :: "string \<Rightarrow> suggestionList" where
  "getLowEmissionSuggestions atype =
     getSuggestions
       [(''transport'', [''Walk'', ''Bicycle'', ''Public transport'', ''Electric vehicle'']),
        (''food'', [''Vegetables'', ''Fruits'', ''Local produce'', ''Plant-based proteins'']),
        (''energy'', [''LED lighting'', ''Natural light'', ''Energy-efficient appliances'']),
        (''waste'', [''Recycling'', ''Composting'', ''Reusable items'', ''Minimal packaging''])]
       atype
       [''Eco-friendly alternatives'']"

definition getOptimizationSuggestions :: "activity \<Rightarrow> suggestionList" where
  "getOptimizationSuggestions a =
     (let suggestions =
        (if activityType a = ''transport''
         then (if transportMode (activityDetails a) = Some ''car_gasoline''
               then [''Consider hybrid or electric vehicle'', ''Carpool when possible'',
                     ''Plan efficient routes'']
               else []) @
              (if transportMode (activityDetails a) = Some ''plane_international''
               then [''Consider direct flights (more efficient)'', ''Offset your flight emissions'']
               else [])
         else if activityType a = ''food''
         then (if foodType (activityDetails a) = Some ''beef''
               then [''Try chicken or fish alternatives'', ''Consider plant-based proteins'',
                     ''Reduce portion size'']
               else [])
         else if activityType a = ''energy''
         then [''Switch to renewable energy sources'', ''Improve home insulation'',
               ''Use smart thermostats'']
         else [])
      in Suggestions (if length suggestions > 0 then suggestions
                      else [''Look for more efficient options'']))"

text \<open>A tip, without its \<^verbatim>\<open>message\<close> (a sentence that quotes formatted numbers).\<close>

record tip =
  tipType :: string
  title :: string
  priority :: string
  category :: string
  actionable :: bool
  suggestions :: suggestionList

definition highEmissionThresholds :: "(string \<times> rat) list" where
  "highEmissionThresholds = [(''transport'', 10), (''food'', 5), (''energy'', 8), (''waste'', 2)]"

definition generateGeneralTip :: "activity \<Rightarrow> tip option" where
  "generateGeneralTip a =
     (let threshold = orDefault (getProp highEmissionThresholds (Some (activityType a))) 3
      in if gt_js (carbonFootprint a) threshold
         then Some \<lparr>tipType = ''info'', title = ''High Carbon Activity'', priority = ''low'',
                    category = activityType a, actionable = True,
                    suggestions = getAlternativeSuggestions a\<rparr>
         else if carbonFootprint a < 1
         then Some \<lparr>tipType = ''success'', title = ''Low Carbon Choice!'', priority = ''low'',
                    category = activityType a, actionable = False,
                    suggestions = Suggestions []\<rparr>
         else None)"

definition getGlobalActivityTypeAverage :: "string \<Rightarrow> jsval" where
  "getGlobalActivityTypeAverage atype =
     orDefault
       (getProp [(''transport'', 5), (''food'', 3), (''energy'', 25 / 10), (''waste'', 1),
                 (''other'', 2)] (Some atype))
       2"

text \<open>The average footprint of the user's activities of one category over the last 30
  days (the \<^verbatim>\<open>$avg\<close> of the aggregation), or the global average when there is none or it
  is zero.\<close>

definition getActivityTypeAverage :: "nat \<Rightarrow> string \<Rightarrow> int \<Rightarrow> activity list \<Rightarrow> jsval" where
  "getActivityTypeAverage uid atype now st =
     (let matched = filter (\<lambda>a. activity.userId a = uid \<and> activityType a = atype \<and>
                                 now - 30 * 24 * 60 * 60 * 1000 \<le> activity.date a) st
      in if matched = [] then getGlobalActivityTypeAverage atype
         else (let avgEmissions = sum_list (map carbonFootprint matched) / of_nat (length matched)
               in if avgEmissions = 0 then getGlobalActivityTypeAverage atype
                  else Num avgEmissions))"

text \<open>\<^verbatim>\<open>generateRealTimeTip(userId, newActivity)\<close>; \<open>u\<close> is what \<^verbatim>\<open>User.findById\<close> found, \<open>now\<close>
  the time of the call, \<open>st\<close> the activities in the store. \<open>None\<close> is \<^verbatim>\<open>null\<close>. A goal counts
  as current when it exists and its end date has not passed; the four tiers are the
  branches of one \<^verbatim>\<open>if\<close> / \<^verbatim>\<open>else if\<close> chain.\<close>

definition generateRealTimeTip :: "user option \<Rightarrow> nat \<Rightarrow> int \<Rightarrow> activity list \<Rightarrow> activity \<Rightarrow> tip option" where
  "generateRealTimeTip u uid now st newAct =
     (case (case u of None \<Rightarrow> None | Some usr \<Rightarrow> currentEmissionGoal usr) of
        None \<Rightarrow> generateGeneralTip newAct
      | Some currentGoal \<Rightarrow>
          if now > emissionGoal.endDate currentGoal then generateGeneralTip newAct
          else (let currentActivities =
                      goalActivities uid (emissionGoal.startDate currentGoal)
                        (emissionGoal.category currentGoal) st;
                    cur = sumFootprints currentActivities;
                    budget = emissionGoal.targetEmissions currentGoal - cur;
                    days = daysBetween now (emissionGoal.endDate currentGoal)
                in if budget \<le> 0
                   then Some \<lparr>tipType = ''warning'', title = ''Goal Budget Exceeded!'',
                              priority = ''high'', category = emissionGoal.category currentGoal,
                              actionable = True, suggestions = getAlternativeSuggestions newAct\<rparr>
                   else if budget < emissionGoal.targetEmissions currentGoal * (1 / 10)
                   then Some \<lparr>tipType = ''alert'', title = ''Approaching Goal Limit'',
                              priority = ''medium'', category = emissionGoal.category currentGoal,
                              actionable = True,
                              suggestions = getLowEmissionSuggestions (activityType newAct)\<rparr>
                   else if gt_js (carbonFootprint newAct)
                             (getActivityTypeAverage uid (activityType newAct) now st)
                   then Some \<lparr>tipType = ''info'', title = ''Optimization Opportunity'',
                              priority = ''low'', category = activityType newAct,
                              actionable = True,
                              suggestions = getOptimizationSuggestions newAct\<rparr>
                   else if cur \<le> emissionGoal.targetEmissions currentGoal * (5 / 10) \<and> days > 1
                   then Some \<lparr>tipType = ''success'', title = ''Great Progress!'',
                              priority = ''low'', category = emissionGoal.category currentGoal,
                              actionable = False, suggestions = Suggestions []\<rparr>
                   else None))"

section \<open>Notions of the specification and example data\<close>

text \<open>The canonical quantity of an activity: the converted quantity that the calculation
  of its category multiplies with the factor (for a category without a calculation, the
  value as it is).\<close>

definition canonicalQuantity :: "activity \<Rightarrow> rat" where
  "canonicalQuantity a =
     (if activityType a = ''transport'' then distanceKm (quantity a)
      else if activityType a = ''energy'' then energykWh (quantity a)
      else if activityType a = ''food'' then weightKg_food (quantity a)
      else if activityType a = ''waste'' then weightKg_waste (quantity a)
      else qvalue (quantity a))"

text \<open>Rounding to two decimals with ties away from zero, as the specification words it.\<close>

definition roundHalfAwayFromZero2 :: "rat \<Rightarrow> rat" where
  "roundHalfAwayFromZero2 x = sgn x * of_int \<lfloor>\<bar>x\<bar> * 100 + 1 / 2\<rfloor> / 100"

text \<open>The units that the specification lists as converted, per category.\<close>

definition convertedUnits :: "string \<Rightarrow> string list" where
  "convertedUnits atype =
     (if atype = ''transport'' then [''miles'', ''m'']
      else if atype = ''energy'' then [''MWh'', ''BTU'']
      else if atype = ''food'' then [''lbs'', ''g'', ''servings'']
      else if atype = ''waste'' then [''lbs'', ''g'']
      else [])"

text \<open>An activity document with the given category, quantity and details.\<close>

definition exampleActivity :: "string \<Rightarrow> rat \<Rightarrow> string \<Rightarrow> activityDetails \<Rightarrow> activity" where
  "exampleActivity atype v u details =
     newActivity 1 1 ''example'' atype ''example'' \<lparr>qvalue = v, qunit = u\<rparr> details 0"

text \<open>The same activity as the \<^verbatim>\<open>pre('save')\<close> hook stores it when it is created.\<close>

definition savedActivity :: "string \<Rightarrow> rat \<Rightarrow> string \<Rightarrow> activityDetails \<Rightarrow> activity" where
  "savedActivity atype v u details = preSave True False (exampleActivity atype v u details)"

text \<open>The trend as the specification words it: the percentage is 0 when the previous total
  is 0, and the direction is stable exactly when the percentage is at most 5 in magnitude.\<close>

definition spec_percentageChange :: "rat \<Rightarrow> rat \<Rightarrow> rat" where
  "spec_percentageChange prev cur = (if prev = 0 then 0 else (cur - prev) / prev * 100)"

definition spec_direction :: "rat \<Rightarrow> rat \<Rightarrow> string" where
  "spec_direction prev cur =
     (if \<bar>spec_percentageChange prev cur\<bar> \<le> 5 then ''stable''
      else if cur - prev > 0 then ''increasing'' else ''decreasing'')"

text \<open>A week with the given total.\<close>

definition weekOf :: "string \<Rightarrow> rat \<Rightarrow> weekBucket" where
  "weekOf start emitted =
     \<lparr>weekStart = start, totalEmissions = emitted, activityCount = 1, byCategory = []\<rparr>"

text \<open>Goals of user 1 for all categories, running from time 0 for seven days.\<close>

definition exampleEmissionGoal :: "rat \<Rightarrow> rat \<Rightarrow> emissionGoal" where
  "exampleEmissionGoal baseline target =
     \<lparr>emissionGoal.userId = 1, emissionGoal.targetEmissions = target,
      emissionGoal.category = ''all'', timeframe = ''weekly'',
      emissionGoal.baselineEmissions = baseline, emissionGoal.startDate = 0,
      emissionGoal.endDate = 7 * 24 * 60 * 60 * 1000, emissionGoal.status = ''active'',
      emissionGoal.createdAt = 0\<rparr>"

definition exampleWeeklyGoal :: "rat \<Rightarrow> rat \<Rightarrow> weeklyGoal" where
  "exampleWeeklyGoal baseline target =
     \<lparr>weeklyGoal.userId = 1, weeklyGoal.startDate = 0,
      weeklyGoal.endDate = 7 * 24 * 60 * 60 * 1000, weeklyGoal.category = ''all'',
      goalType = ''absolute'', targetReduction = baseline - target,
      weeklyGoal.baselineEmissions = baseline, weeklyGoal.targetEmissions = target,
      currentProgress = 0, weeklyGoal.status = ''active'', weeklyGoal.createdAt = 0\<rparr>"

text \<open>The emissions that count for an emission goal, and the budget that remains.\<close>

definition currentEmissionsOf :: "emissionGoal \<Rightarrow> nat \<Rightarrow> activity list \<Rightarrow> rat" where
  "currentEmissionsOf g uid st =
     sumFootprints (goalActivities uid (emissionGoal.startDate g) (emissionGoal.category g) st)"

definition remainingBudgetOf :: "emissionGoal \<Rightarrow> nat \<Rightarrow> activity list \<Rightarrow> rat" where
  "remainingBudgetOf g uid st = emissionGoal.targetEmissions g - currentEmissionsOf g uid st"

text \<open>The \<^verbatim>\<open>progress\<close> object of a response, if it has one.\<close>

fun progressOf :: "routeError + ('g, 'p) goalResponse \<Rightarrow> 'p option" where
  "progressOf (Inr (ActiveGoal g p)) = Some p"
| "progressOf (Inr NoActiveGoal) = None"
| "progressOf (Inl e) = None"

text \<open>A user with the given goals.\<close>

definition userWith :: "weeklyGoal option \<Rightarrow> emissionGoal option \<Rightarrow> user" where
  "userWith wg eg = \<lparr>currentWeeklyGoal = wg, currentEmissionGoal = eg\<rparr>"

text \<open>A flight of the given length, as stored: its footprint is a quarter of the
  kilometres.\<close>

definition savedFlight :: "rat \<Rightarrow> activity" where
  "savedFlight km =
     savedActivity ''transport'' km ''km'' (emptyDetails\<lparr>transportMode := Some ''plane_domestic''\<rparr>)"

text \<open>A request body for a commute by gasoline car over the given distance, and the
  document of that commute (identifier 7, user 1) with given computed fields.\<close>

definition commuteBody :: "rat \<Rightarrow> activityBody" where
  "commuteBody km =
     \<lparr>body_activityName = ''Commute'', body_activityType = ''transport'',
      body_description = ''Drive to work'',
      body_quantity = Some \<lparr>qvalue = km, qunit = ''km''\<rparr>,
      body_activityDetails = Some (emptyDetails\<lparr>transportMode := Some ''car_gasoline''\<rparr>),
      body_date = Some 0\<rparr>"

definition commuteDoc :: "rat \<Rightarrow> rat \<Rightarrow> rat \<Rightarrow> activity" where
  "commuteDoc km footprint factor =
     \<lparr>docId = 7, userId = 1, activityName = ''Commute'', activityType = ''transport'',
      description = ''Drive to work'', quantity = \<lparr>qvalue = km, qunit = ''km''\<rparr>,
      activityDetails = emptyDetails\<lparr>transportMode := Some ''car_gasoline''\<rparr>, date = 0,
      carbonFootprint = footprint, calculationMethod = ''system_calculated'',
      emissionFactor = factor\<rparr>"

section \<open>The footprint calculation\<close>

lemma mathRound_zero: "mathRound 0 = 0"
  by code_simp

lemma carbonFootprint_canonical:
  "emissions.carbonFootprint (fst (calculateCarbonFootprint a)) =
     round2 (times_js (canonicalQuantity a)
               (emissions.emissionFactor (fst (calculateCarbonFootprint a))))"
  by (simp add: calculateCarbonFootprint_def canonicalQuantity_def Let_def
      calculateTransportEmissions_def calculateEnergyEmissions_def calculateFoodEmissions_def
      calculateWasteEmissions_def mathRound_zero)

lemma round2_bounds:
  "\<exists>n::int. round2 (Num x) = Num (of_int n / 100) \<and>
             x * 100 - 1 / 2 < of_int n \<and> of_int n \<le> x * 100 + 1 / 2"
proof -
  let ?n = "\<lfloor>x * 100 + 1 / 2\<rfloor>"
  have "of_int ?n \<le> x * 100 + 1 / 2"
    by (rule of_int_floor_le)
  moreover have "x * 100 + 1 / 2 < of_int ?n + 1"
    by linarith
  ultimately show ?thesis
    by (intro exI [of _ ?n]) (simp add: mathRound_def)
qed

text \<open>
  Claim C1. For a transport activity the factor is the one the table of eleven modes lists
  for \<^verbatim>\<open>details.transportMode\<close>, the default 0.21 being used only for a missing or
  unrecognized mode; for \<^verbatim>\<open>bicycle\<close> and \<^verbatim>\<open>walking\<close> the factor and the footprint are 0.

  The code does not do this for the two modes listed with factor 0: the table entry 0 is
  falsy, so \<^verbatim>\<open>transportEmissions[mode] || 0.21\<close> is the default. Ten kilometres by bicycle
  are reported with factor 0.21 and footprint 2.1.
\<close>

theorem bicycle_gets_default_factor:
  "fst (calculateCarbonFootprint
          (exampleActivity ''transport'' 10 ''km'' (emptyDetails\<lparr>transportMode := Some ''bicycle''\<rparr>)))
     = \<lparr>emissions.carbonFootprint = Num (21 / 10), emissions.emissionFactor = Num (21 / 100)\<rparr>
   \<and> fst (calculateCarbonFootprint
          (exampleActivity ''transport'' 10 ''km'' (emptyDetails\<lparr>transportMode := Some ''walking''\<rparr>)))
     = \<lparr>emissions.carbonFootprint = Num (21 / 10), emissions.emissionFactor = Num (21 / 100)\<rparr>
   \<and> map_of transportEmissions ''bicycle'' = Some 0
   \<and> map_of transportEmissions ''walking'' = Some 0"
  by code_simp

text \<open>For the other modes the claim holds: a mode listed with a factor other than 0 gets
  that factor, and a missing mode, or one that is neither listed nor the name of an
  inherited member, gets the default.\<close>

lemma transport_factor_listed:
  assumes "activityType a = ''transport''"
    and "transportMode (activityDetails a) = Some m"
    and "map_of transportEmissions m = Some f" and "f \<noteq> 0"
  shows "emissions.emissionFactor (fst (calculateCarbonFootprint a)) = Num f"
  using assms
  by (simp add: calculateCarbonFootprint_def calculateTransportEmissions_def Let_def)

lemma transport_factor_default:
  assumes "activityType a = ''transport''"
    and "transportMode (activityDetails a) = None
         \<or> (\<exists>m. transportMode (activityDetails a) = Some m
                 \<and> map_of transportEmissions m = None \<and> m \<notin> set objectPrototypeKeys)"
  shows "emissions.emissionFactor (fst (calculateCarbonFootprint a)) = Num (21 / 100)"
  using assms
  by (auto simp: calculateCarbonFootprint_def calculateTransportEmissions_def Let_def)







section \<open>Stored documents\<close>

text \<open>
  Claim C2. The stored footprint of an activity is always consistent with its last-saved
  quantity, category and details: every operation that creates an activity or changes
  these fields, the update operation included, recomputes \<^verbatim>\<open>carbonFootprint\<close> and
  \<^verbatim>\<open>emissionFactor\<close> before the new state is stored.

  The update operation does not. \<^verbatim>\<open>PUT /:id\<close> writes with \<^verbatim>\<open>findOneAndUpdate\<close>, which runs
  no \<^verbatim>\<open>save\<close> hook, although its own comment says that the footprint is recalculated. A
  commute of 100 km by gasoline car is created with footprint 21; updated to 200 km it is
  stored with 200 km and still 21, where the calculation on the stored document gives 42.
\<close>

theorem update_keeps_stale_footprint:
  "postActivity 1 7 0 (commuteBody 100) []
     = Inr (commuteDoc 100 21 (21 / 100), [commuteDoc 100 21 (21 / 100)])
   \<and> putActivity 1 7 (commuteBody 200) [commuteDoc 100 21 (21 / 100)]
     = Inr (commuteDoc 200 21 (21 / 100), [commuteDoc 200 21 (21 / 100)])
   \<and> fst (calculateCarbonFootprint (commuteDoc 200 21 (21 / 100)))
     = \<lparr>emissions.carbonFootprint = Num 42, emissions.emissionFactor = Num (21 / 100)\<rparr>"
  by code_simp

section \<open>Trends\<close>

lemma trend_two:
  "calculateTrendDirection (ws @ [p, c]) =
     (let prev = totalEmissions p; cur = totalEmissions c;
          pct = (if prev > 0 then (cur - prev) / prev * 100 else 0)
      in \<lparr>direction = (if \<bar>pct\<bar> \<le> 5 then ''stable''
                        else if cur - prev > 0 then ''increasing'' else ''decreasing''),
          change = toFixed 2 (cur - prev),
          percentageChange = Some (toFixed 1 pct)\<rparr>)"
  by (simp add: calculateTrendDirection_def Let_def divide_js_def)

lemma trend_short:
  "length ts < 2 \<Longrightarrow>
   calculateTrendDirection ts = \<lparr>direction = ''stable'', change = 0, percentageChange = None\<rparr>"
  by (simp add: calculateTrendDirection_def)

lemma toFixed_bounds: "\<bar>toFixed d x - x\<bar> \<le> 1 / (2 * 10 ^ d)"
proof -
  define m :: rat where "m = 10 ^ d"
  define n where "n = \<lfloor>\<bar>x\<bar> * m + 1 / 2\<rfloor>"
  define e where "e = of_int n - \<bar>x\<bar> * m"
  have m: "0 < m"
    by (simp add: m_def)
  have lo: "of_int n \<le> \<bar>x\<bar> * m + 1 / 2"
    unfolding n_def by (rule of_int_floor_le)
  have hi: "\<bar>x\<bar> * m + 1 / 2 < of_int n + 1"
    unfolding n_def by linarith
  have e: "\<bar>e\<bar> \<le> 1 / 2"
    using lo hi unfolding e_def by linarith
  have "of_int n / m - \<bar>x\<bar> = e / m"
    using m by (simp add: e_def field_simps)
  moreover have "\<bar>e / m\<bar> \<le> (1 / 2) / m"
  proof -
    have "\<bar>e\<bar> / m \<le> (1 / 2) / m"
      using e m by (intro divide_right_mono) simp_all
    then show ?thesis
      using m by (simp add: abs_divide)
  qed
  ultimately have b: "\<bar>of_int n / m - \<bar>x\<bar>\<bar> \<le> 1 / (2 * m)"
    by simp
  have "toFixed d x - x = sgn x * (of_int n / m - \<bar>x\<bar>)"
  proof -
    have "\<bar>x\<bar> * sgn x = x"
      by (simp add: sgn_if)
    then show ?thesis
      by (simp add: toFixed_def n_def m_def algebra_simps)
  qed
  then have "\<bar>toFixed d x - x\<bar> = \<bar>sgn x\<bar> * \<bar>of_int n / m - \<bar>x\<bar>\<bar>"
    by (simp add: abs_mult)
  also have "\<dots> \<le> \<bar>of_int n / m - \<bar>x\<bar>\<bar>"
    by (cases "x = 0") (simp_all add: abs_sgn_eq)
  finally show ?thesis
    using b by (simp add: m_def)
qed




section \<open>Goal progress\<close>

lemma weekly_zero_baseline:
  assumes "currentWeeklyGoal usr = Some wg" and "\<not> now > weeklyGoal.endDate wg"
    and "weeklyGoal.baselineEmissions wg = 0"
  shows "\<exists>p. weeklyGoalProgress (Some usr) uid now st = Inr (ActiveGoal wg p)
             \<and> progressPercentage p = Some 0"
  using assms by (simp add: weeklyGoalProgress_def Let_def)

lemma emission_zero_target:
  assumes "currentEmissionGoal usr = Some eg" and "\<not> now > emissionGoal.endDate eg"
    and "emissionGoal.targetEmissions eg = 0"
  shows "\<exists>p. emissionGoalProgress (Some usr) uid now st = Inr (ActiveGoal eg p)
             \<and> progressPercentage p = Some 0"
  using assms by (simp add: emissionGoalProgress_def Let_def)

lemma weekly_percentage_finite:
  assumes "weeklyGoalProgress u uid now st = Inr (ActiveGoal wg wp)"
  shows "progressPercentage wp \<noteq> None"
  using assms
  by (auto simp: weeklyGoalProgress_def Let_def divide_js_def split: option.splits if_splits)

lemma emission_percentage_finite:
  assumes "emissionGoalProgress u uid now st = Inr (ActiveGoal eg ep)"
  shows "progressPercentage ep \<noteq> None"
  using assms
  by (auto simp: emissionGoalProgress_def Let_def divide_js_def split: option.splits if_splits)

lemma emission_progress:
  assumes "currentEmissionGoal usr = Some g" and "\<not> now > emissionGoal.endDate g"
    and "emissionGoal.targetEmissions g > 0"
  shows "\<exists>p. emissionGoalProgress (Some usr) uid now st = Inr (ActiveGoal g p)
           \<and> progressPercentage p =
               Some (toFixed 1 (currentEmissionsOf g uid st / emissionGoal.targetEmissions g * 100))
           \<and> isOnTrack p = (currentEmissionsOf g uid st \<le> emissionGoal.targetEmissions g)"
  using assms
  by (simp add: emissionGoalProgress_def Let_def divide_js_def currentEmissionsOf_def)






section \<open>The tip cascade\<close>

lemma tip_cascade:
  assumes "currentEmissionGoal usr = Some g" and "\<not> now > emissionGoal.endDate g"
  shows "map_option tipType (generateRealTimeTip (Some usr) uid now st a) =
      (if remainingBudgetOf g uid st \<le> 0 then Some ''warning''
       else if remainingBudgetOf g uid st < emissionGoal.targetEmissions g * (1 / 10)
       then Some ''alert''
       else if gt_js (carbonFootprint a) (getActivityTypeAverage uid (activityType a) now st)
       then Some ''info''
       else if currentEmissionsOf g uid st \<le> emissionGoal.targetEmissions g * (5 / 10)
               \<and> daysBetween now (emissionGoal.endDate g) > 1
       then Some ''success''
       else None)"
  using assms
  by (simp add: generateRealTimeTip_def Let_def remainingBudgetOf_def currentEmissionsOf_def)



section \<open>Preview and stored calculation\<close>

lemma orDefault_numeric:
  "k \<notin> set objectPrototypeKeys \<Longrightarrow> \<exists>f. orDefault (getProp tbl (Some k)) d = Num f"
  by (cases "map_of tbl k") simp_all

lemma orDefault_missing: "\<exists>f. orDefault (getProp tbl None) d = Num f"
  by simp

lemma enum_numeric:
  assumes "\<not> notInEnum m valid" and "set valid \<inter> set objectPrototypeKeys = {}"
  shows "\<exists>f. orDefault (getProp tbl m) d = Num f"
proof (cases m)
  case None
  then show ?thesis by simp
next
  case (Some k)
  with assms have "k \<notin> set objectPrototypeKeys" by auto
  with Some show ?thesis using orDefault_numeric by simp
qed

lemma valid_not_inherited:
  "set validTransportModes \<inter> set objectPrototypeKeys = {}"
  "set validEnergySources \<inter> set objectPrototypeKeys = {}"
  "set validFoodTypes \<inter> set objectPrototypeKeys = {}"
  "set validWasteTypes \<inter> set objectPrototypeKeys = {}"
  "set validDisposalMethods \<inter> set objectPrototypeKeys = {}"
  by (simp_all add: validTransportModes_def validEnergySources_def validFoodTypes_def
      validWasteTypes_def validDisposalMethods_def objectPrototypeKeys_def)


lemma strOr_enum:
  assumes "\<not> notInEnum m valid" and "dflt \<in> set valid" and "set valid \<inter> set objectPrototypeKeys = {}"
  shows "strOr m dflt \<notin> set objectPrototypeKeys"
proof (cases m)
  case None
  with assms show ?thesis by auto
next
  case (Some k)
  with assms show ?thesis by (cases "k = []") auto
qed

lemma schemaErrors_details:
  assumes "schemaErrors a = []"
  shows "\<not> notInEnum (transportMode (activityDetails a)) validTransportModes"
    and "\<not> notInEnum (energySource (activityDetails a)) validEnergySources"
    and "\<not> notInEnum (foodType (activityDetails a)) validFoodTypes"
    and "\<not> notInEnum (wasteType (activityDetails a)) validWasteTypes"
    and "\<not> notInEnum (disposalMethod (activityDetails a)) validDisposalMethods"
  using assms by (simp_all add: schemaErrors_def inputPathErrors_def split: if_splits)

lemma transport_numeric:
  assumes "schemaErrors a = []"
  shows "\<exists>c f. calculateTransportEmissions a = \<lparr>emissions.carbonFootprint = Num c, emissions.emissionFactor = Num f\<rparr>"
proof -
  obtain f where "orDefault (getProp transportEmissions (transportMode (activityDetails a))) (21 / 100) = Num f"
    using enum_numeric [OF schemaErrors_details(1) [OF assms] valid_not_inherited(1)] by blast
  then show ?thesis by (simp add: calculateTransportEmissions_def)
qed

lemma energy_numeric:
  assumes "schemaErrors a = []"
  shows "\<exists>c f. calculateEnergyEmissions a = \<lparr>emissions.carbonFootprint = Num c, emissions.emissionFactor = Num f\<rparr>"
proof -
  obtain f where "orDefault (getProp energyEmissions (energySource (activityDetails a))) (45 / 100) = Num f"
    using enum_numeric [OF schemaErrors_details(2) [OF assms] valid_not_inherited(2)] by blast
  then show ?thesis by (simp add: calculateEnergyEmissions_def)
qed

lemma food_numeric:
  assumes "schemaErrors a = []"
  shows "\<exists>c f. calculateFoodEmissions a = \<lparr>emissions.carbonFootprint = Num c, emissions.emissionFactor = Num f\<rparr>"
proof -
  obtain f where "orDefault (getProp foodEmissions (foodType (activityDetails a))) 2 = Num f"
    using enum_numeric [OF schemaErrors_details(3) [OF assms] valid_not_inherited(3)] by blast
  then show ?thesis by (simp add: calculateFoodEmissions_def)
qed

lemma waste_numeric:
  assumes "schemaErrors a = []"
  shows "\<exists>c f. calculateWasteEmissions a = \<lparr>emissions.carbonFootprint = Num c, emissions.emissionFactor = Num f\<rparr>"
proof -
  have wt: "strOr (wasteType (activityDetails a)) ''general_waste'' \<notin> set objectPrototypeKeys"
    by (rule strOr_enum [OF schemaErrors_details(4) [OF assms] _ valid_not_inherited(4)])
       (simp add: validWasteTypes_def)
  have dm: "strOr (disposalMethod (activityDetails a)) ''landfill'' \<notin> set objectPrototypeKeys"
    by (rule strOr_enum [OF schemaErrors_details(5) [OF assms] _ valid_not_inherited(5)])
       (simp add: validDisposalMethods_def)
  obtain f1 where f1: "orDefault (getProp wasteEmissions_general_waste
      (Some (strOr (disposalMethod (activityDetails a)) ''landfill''))) (5 / 10) = Num f1"
    using orDefault_numeric [OF dm] by blast
  obtain f2 where f2: "orDefault (getProp wasteEmissions
      (Some (strOr (wasteType (activityDetails a)) ''general_waste''))) (5 / 10) = Num f2"
    using orDefault_numeric [OF wt] by blast
  from f1 f2 show ?thesis
    by (simp add: calculateWasteEmissions_def Let_def)
qed

lemma calculate_numeric:
  assumes "schemaErrors a = []"
  shows "\<exists>c f. fst (calculateCarbonFootprint a) =
           \<lparr>emissions.carbonFootprint = Num c, emissions.emissionFactor = Num f\<rparr>"
proof -
  obtain c1 f1 where t: "calculateTransportEmissions a = \<lparr>emissions.carbonFootprint = Num c1, emissions.emissionFactor = Num f1\<rparr>"
    using transport_numeric [OF assms] by blast
  obtain c2 f2 where e: "calculateEnergyEmissions a = \<lparr>emissions.carbonFootprint = Num c2, emissions.emissionFactor = Num f2\<rparr>"
    using energy_numeric [OF assms] by blast
  obtain c3 f3 where f: "calculateFoodEmissions a = \<lparr>emissions.carbonFootprint = Num c3, emissions.emissionFactor = Num f3\<rparr>"
    using food_numeric [OF assms] by blast
  obtain c4 f4 where w: "calculateWasteEmissions a = \<lparr>emissions.carbonFootprint = Num c4, emissions.emissionFactor = Num f4\<rparr>"
    using waste_numeric [OF assms] by blast
  define em where "em = (if activityType a = ''transport'' then calculateTransportEmissions a
               else if activityType a = ''energy'' then calculateEnergyEmissions a
               else if activityType a = ''food'' then calculateFoodEmissions a
               else if activityType a = ''waste'' then calculateWasteEmissions a
               else \<lparr>emissions.carbonFootprint = Num 0, emissions.emissionFactor = Num 0\<rparr>)"
  have "\<exists>c f. em = \<lparr>emissions.carbonFootprint = Num c, emissions.emissionFactor = Num f\<rparr>"
    unfolding em_def using t e f w by simp
  then obtain c f where em: "em = \<lparr>emissions.carbonFootprint = Num c, emissions.emissionFactor = Num f\<rparr>"
    by blast
  have "fst (calculateCarbonFootprint a) =
          \<lparr>emissions.carbonFootprint = round2 (emissions.carbonFootprint em),
           emissions.emissionFactor = emissions.emissionFactor em\<rparr>"
    by (simp add: calculateCarbonFootprint_def Let_def em_def)
  with em have "fst (calculateCarbonFootprint a) =
          \<lparr>emissions.carbonFootprint = Num (mathRound (c * 100) / 100),
           emissions.emissionFactor = Num f\<rparr>"
    by simp
  then show ?thesis by blast
qed

lemma calculate_depends_on:
  assumes "activityType a = activityType b" and "quantity a = quantity b"
    and "activityDetails a = activityDetails b"
  shows "fst (calculateCarbonFootprint a) = fst (calculateCarbonFootprint b)"
  using assms
  by (simp add: calculateCarbonFootprint_def Let_def calculateTransportEmissions_def
      calculateEnergyEmissions_def calculateFoodEmissions_def calculateWasteEmissions_def)

lemma preSave_new:
  assumes "fst (calculateCarbonFootprint a) =
             \<lparr>emissions.carbonFootprint = Num c, emissions.emissionFactor = Num f\<rparr>"
    and "carbonFootprint a = 0"
  shows "carbonFootprint (preSave True False a) = c \<and> emissionFactor (preSave True False a) = f"
proof -
  obtain r a1 where ra: "calculateCarbonFootprint a = (r, a1)"
    by (cases "calculateCarbonFootprint a")
  with assms(1) have r: "r = \<lparr>emissions.carbonFootprint = Num c, emissions.emissionFactor = Num f\<rparr>"
    by simp
  from ra have a1: "carbonFootprint a1 = carbonFootprint a"
    by (auto simp: calculateCarbonFootprint_def Let_def)
  show ?thesis
    using assms(2) a1 by (simp add: preSave_def ra r Let_def)
qed

text \<open>
  Claim C10. For every category, quantity and details, the footprint and the factor that
  the calculate-preview operation returns are the footprint and the factor that the
  create-activity path stores for the same request: both come from
  \<^verbatim>\<open>calculateCarbonFootprint\<close> on a document with the same category, quantity and details.
\<close>

theorem preview_equals_stored:
  assumes "postActivity uid newId now body st = Inr (doc, st')"
  shows "\<exists>r. calculatePreview uid now' body = Inr r
           \<and> emissions.carbonFootprint r = Num (carbonFootprint doc)
           \<and> emissions.emissionFactor r = Num (emissionFactor doc)"
proof -
  from assms have v: "validateActivity body = None"
    by (auto simp: postActivity_def split: option.splits)
  from assms v obtain q where q: "body_quantity body = Some q"
    by (auto simp: postActivity_def split: option.splits)
  define details where "details = (case body_activityDetails body of None \<Rightarrow> emptyDetails | Some d \<Rightarrow> d)"
  define a where "a = newActivity newId uid (body_activityName body) (body_activityType body)
       (body_description body) \<lparr>qvalue = qvalue q, qunit = qunit q\<rparr> details
       (case body_date body of None \<Rightarrow> now | Some d \<Rightarrow> d)"
  define t where "t = newActivity 0 uid ''temp'' (body_activityType body) ''temp'' q details now'"
  from assms v q have s: "save a st = Inr (doc, st')"
    by (simp add: postActivity_def a_def details_def)
  then have ok: "schemaErrors a = []" and doc: "doc = preSave True False a"
    by (auto simp: save_def Let_def split: if_splits)
  obtain c f where cf: "fst (calculateCarbonFootprint a) =
      \<lparr>emissions.carbonFootprint = Num c, emissions.emissionFactor = Num f\<rparr>"
    using calculate_numeric [OF ok] by blast
  have "carbonFootprint a = 0"
    by (simp add: a_def newActivity_def)
  with cf doc have stored: "carbonFootprint doc = c \<and> emissionFactor doc = f"
    using preSave_new by simp
  have "fst (calculateCarbonFootprint t) = fst (calculateCarbonFootprint a)"
    by (rule calculate_depends_on) (simp_all add: t_def a_def newActivity_def)
  moreover have "calculatePreview uid now' body = Inr (fst (calculateCarbonFootprint t))"
    by (simp add: calculatePreview_def v q t_def details_def)
  ultimately show ?thesis
    using cf stored by simp
qed


theorem preview_equals_stored_witness:
  "postActivity 1 7 0 (commuteBody 100) []
     = Inr (commuteDoc 100 21 (21 / 100), [commuteDoc 100 21 (21 / 100)])
   \<and> calculatePreview 1 5 (commuteBody 100)
     = Inr \<lparr>emissions.carbonFootprint = Num 21, emissions.emissionFactor = Num (21 / 100)\<rparr>"
proof -
  have p: "postActivity 1 7 0 (commuteBody 100) []
             = Inr (commuteDoc 100 21 (21 / 100), [commuteDoc 100 21 (21 / 100)])"
    by code_simp
  from preview_equals_stored [OF p, of 5] obtain r where
    r: "calculatePreview 1 5 (commuteBody 100) = Inr r"
    and c: "emissions.carbonFootprint r = Num (carbonFootprint (commuteDoc 100 21 (21 / 100)))"
    and f: "emissions.emissionFactor r = Num (emissionFactor (commuteDoc 100 21 (21 / 100)))"
    by blast
  from c f have "r = \<lparr>emissions.carbonFootprint = Num 21, emissions.emissionFactor = Num (21 / 100)\<rparr>"
    by (simp add: commuteDoc_def emissions.equality)
  with p r show ?thesis
    by simp
qed

end
